theory Spec2Isabelle
  imports Complex_Main
begin

section \<open>Project operations of the Kanban server (src/operations/projects.ts)\<close>

text \<open>
  The module exports five asynchronous functions, \<open>getProjects\<close>, \<open>getProject\<close>,
  \<open>createProject\<close>, \<open>updateProject\<close> and \<open>deleteProject\<close>. Each one builds a request,
  hands it to \<open>plankaRequest\<close>, validates the answer with a zod schema (all but
  \<open>deleteProject\<close>) and turns whatever was thrown on the way into one \<open>Error\<close>.

  The embedding keeps that shape. A rejected promise or a thrown value is the left
  summand of a sum type, \<open>await\<close> is an ordinary call, and the effect of
  \<open>plankaRequest\<close> on the outside world is a state \<open>'w\<close> that is passed in and returned.
\<close>

subsection \<open>Values\<close>

text \<open>
  A JavaScript number is \<open>NaN\<close>, one of the two infinities or a finite number. The
  finite numbers are modelled by the rationals, of which the finite doubles are a part;
  negative zero, which compares and prints like zero, is not kept apart from it.
  \<open>number_gt\<close> is the operator \<open>>\<close> on numbers: a comparison with \<open>NaN\<close> is false.
\<close>

datatype number = NaN | Infinity | NegInfinity | Finite rat

fun number_gt :: "number \<Rightarrow> number \<Rightarrow> bool" where
  "number_gt NaN y = False"
| "number_gt x NaN = False"
| "number_gt NegInfinity y = False"
| "number_gt x Infinity = False"
| "number_gt Infinity y = True"
| "number_gt (Finite a) NegInfinity = True"
| "number_gt (Finite a) (Finite b) = (b < a)"

text \<open>
  \<open>Number.prototype.toString\<close> prints \<open>NaN\<close>, \<open>Infinity\<close> and \<open>-Infinity\<close> by their names
  and a safe integer (an integer of magnitude at most \<open>2^53 - 1\<close>) in decimal, with a
  leading minus sign when it is negative. Every other finite number is printed with the
  shortest digits that read back as the same number, with a decimal point or, from
  \<open>10^21\<close> on, in exponent notation (\<open>1e+21\<close>); what is printed for those is the
  parameter \<open>printed\<close>.
\<close>

fun digits :: "nat \<Rightarrow> string" where
  "digits n =
     (if n < 10 then [''0123456789'' ! n]
      else digits (n div 10) @ [''0123456789'' ! (n mod 10)])"

declare digits.simps [simp del]

definition is_safe_integer :: "rat \<Rightarrow> bool" where
  "is_safe_integer r = (of_int \<lfloor>r\<rfloor> = r \<and> \<bar>r\<bar> \<le> 9007199254740991)"

definition decimal :: "int \<Rightarrow> string" where
  "decimal i = (if i < 0 then CHR ''-'' # digits (nat (- i)) else digits (nat i))"

definition number_toString :: "(rat \<Rightarrow> string) \<Rightarrow> number \<Rightarrow> string" where
  "number_toString printed x =
     (case x of
        NaN \<Rightarrow> ''NaN''
      | Infinity \<Rightarrow> ''Infinity''
      | NegInfinity \<Rightarrow> ''-Infinity''
      | Finite r \<Rightarrow> if is_safe_integer r then decimal \<lfloor>r\<rfloor> else printed r)"

text \<open>
  What \<open>plankaRequest\<close> returns, what is sent as a body and what a schema validates
  are JavaScript values that came out of, or go into, JSON. \<open>JUndefined\<close> is the value
  of a property that is not there. An object is the list of its properties in
  insertion order, no key twice.
\<close>

datatype json =
    JUndefined
  | JNull
  | JBool bool
  | JNumber number
  | JString string
  | JArray "json list"
  | JObject "(string \<times> json) list"

definition property :: "(string \<times> json) list \<Rightarrow> string \<Rightarrow> json" where
  "property kvs k = (case map_of kvs k of None \<Rightarrow> JUndefined | Some v \<Rightarrow> v)"

definition has_key :: "(string \<times> json) list \<Rightarrow> string \<Rightarrow> bool" where
  "has_key kvs k = (case map_of kvs k of None \<Rightarrow> False | Some v \<Rightarrow> True)"

text \<open>
  A thrown value is either an instance of \<open>Error\<close>, known by its \<open>message\<close>, or any
  other value, known by what \<open>String(...)\<close> makes of it: the \<open>catch\<close> blocks of the
  module look at nothing else.
\<close>

datatype thrown = Error string | NonError string

definition error_text :: "thrown \<Rightarrow> string" where
  \<comment> \<open>\<open>error instanceof Error ? error.message : String(error)\<close>\<close>
  "error_text error = (case error of Error message \<Rightarrow> message | NonError s \<Rightarrow> s)"

subsection \<open>The query string\<close>

text \<open>
  \<open>URLSearchParams\<close> is a list of name/value pairs; \<open>append\<close> adds a pair at the end
  and \<open>toString\<close> serialises the list as \<open>application/x-www-form-urlencoded\<close>: letters,
  digits and \<open>* - . _\<close> stay, a space becomes \<open>+\<close>, every other byte becomes \<open>%HH\<close>.
\<close>

type_synonym URLSearchParams = "(string \<times> string) list"

definition URLSearchParams_append ::
    "URLSearchParams \<Rightarrow> string \<Rightarrow> string \<Rightarrow> URLSearchParams" where
  "URLSearchParams_append params name v = params @ [(name, v)]"

definition unreserved :: "char list" where
  "unreserved =
     ''abcdefghijklmnopqrstuvwxyz'' @ ''ABCDEFGHIJKLMNOPQRSTUVWXYZ'' @ ''0123456789'' @ ''*-._''"

definition urlencode_byte :: "char \<Rightarrow> string" where
  "urlencode_byte c =
     (if c = CHR '' '' then ''+''
      else if List.member unreserved c then [c]
      else [CHR ''%'', ''0123456789ABCDEF'' ! (of_char c div (16::nat)),
                       ''0123456789ABCDEF'' ! (of_char c mod (16::nat))])"

definition urlencode :: "string \<Rightarrow> string" where
  "urlencode s = concat (map urlencode_byte s)"

fun join :: "string \<Rightarrow> string list \<Rightarrow> string" where
  "join sep [] = []"
| "join sep [s] = s"
| "join sep (s # t # ss) = s @ sep @ join sep (t # ss)"

definition URLSearchParams_toString :: "URLSearchParams \<Rightarrow> string" where
  "URLSearchParams_toString params =
     join ''&'' (map (\<lambda>(name, v). urlencode name @ ''='' @ urlencode v) params)"

subsection \<open>The request function\<close>

text \<open>
  \<open>plankaRequest(path, {method, body})\<close> is imported from \<open>common/utils\<close>. A call is
  recorded as the path and the two options as the caller gave them; an option that the
  caller left out is \<open>None\<close>. The field \<open>method'\<close> is the option \<open>method\<close>. The function
  itself is a parameter of every operation: from a request and the state of the world
  it gives the decoded answer, or what it threw, and the next state of the world.
\<close>

record request =
  path :: string
  method' :: "string option"
  body :: "json option"

type_synonym 'w plankaRequest = "request \<Rightarrow> 'w \<Rightarrow> (thrown + json) \<times> 'w"

text \<open>
  To see which requests an operation makes, it is run with a request function that
  keeps a log: the world is the list of the requests made so far, and the answers are
  those of an arbitrary remote service \<open>remote\<close>.
\<close>

definition logged :: "(request \<Rightarrow> thrown + json) \<Rightarrow> request list plankaRequest" where
  "logged remote r sent = (remote r, sent @ [r])"

text \<open>
  Modelled from the spec: the method that \<open>plankaRequest\<close> (\<open>common/utils\<close>, not among
  the sources) uses for a call that names none. The interface table of the
  specification lists the read of a single project, the one call of this module that
  names no method, as a GET.
\<close>

definition effective_method :: "request \<Rightarrow> string" where
  "effective_method r = (case method' r of None \<Rightarrow> ''GET'' | Some m \<Rightarrow> m)"

subsection \<open>Schemas\<close>

text \<open>
  A zod schema takes a value and gives either the validated output or the issues it
  found. An issue has a code, the path to the place it is about and a message. A
  schema that validates a part of a value passes the issues of the part on, with the
  key or the index of the part put in front of their paths. All issues of all parts
  are collected; the value is valid when no part has an issue.
\<close>

datatype path_elem = Key string | Index nat

datatype ZodIssue = ZodIssue (code: string) (issue_path: "path_elem list") (message: string)

type_synonym schema = "json \<Rightarrow> ZodIssue list + json"

definition accepts :: "schema \<Rightarrow> json \<Rightarrow> bool" where
  "accepts s v = (case s v of Inl issues \<Rightarrow> False | Inr out \<Rightarrow> True)"

fun type_name :: "json \<Rightarrow> string" where
  "type_name JUndefined = ''undefined''"
| "type_name JNull = ''null''"
| "type_name (JBool b) = ''boolean''"
| "type_name (JNumber n) = (if n = NaN then ''nan'' else ''number'')"
| "type_name (JString s) = ''string''"
| "type_name (JArray xs) = ''array''"
| "type_name (JObject kvs) = ''object''"

definition invalid_type :: "string \<Rightarrow> json \<Rightarrow> ZodIssue" where
  "invalid_type expected v =
     ZodIssue ''invalid_type'' []
       (if v = JUndefined then ''Required''
        else ''Expected '' @ expected @ '', received '' @ type_name v)"

definition inside :: "path_elem \<Rightarrow> ZodIssue list + 'a \<Rightarrow> ZodIssue list + 'a" where
  "inside e r =
     (case r of
        Inl issues \<Rightarrow> Inl (map (\<lambda>i. ZodIssue (code i) (e # issue_path i) (message i)) issues)
      | Inr out \<Rightarrow> Inr out)"

fun collect :: "(ZodIssue list + 'a) list \<Rightarrow> ZodIssue list + 'a list" where
  "collect [] = Inr []"
| "collect (r # rs) =
     (case r of
        Inl issues \<Rightarrow>
          (case collect rs of Inl others \<Rightarrow> Inl (issues @ others) | Inr outs \<Rightarrow> Inl issues)
      | Inr out \<Rightarrow>
          (case collect rs of Inl others \<Rightarrow> Inl others | Inr outs \<Rightarrow> Inr (out # outs)))"

definition z_any :: schema where
  "z_any v = Inr v"

definition z_string :: schema where
  "z_string v = (case v of JString s \<Rightarrow> Inr v | _ \<Rightarrow> Inl [invalid_type ''string'' v])"

definition z_number :: schema where
  "z_number v =
     (case v of
        JNumber n \<Rightarrow> if n = NaN then Inl [invalid_type ''number'' v] else Inr v
      | _ \<Rightarrow> Inl [invalid_type ''number'' v])"

definition z_optional :: "schema \<Rightarrow> schema" where
  "z_optional s v = (if v = JUndefined then Inr JUndefined else s v)"

definition z_array :: "schema \<Rightarrow> schema" where
  "z_array s v =
     (case v of
        JArray xs \<Rightarrow>
          (case collect (map (\<lambda>(i, x). inside (Index i) (s x)) (enumerate 0 xs)) of
             Inl issues \<Rightarrow> Inl issues
           | Inr outs \<Rightarrow> Inr (JArray outs))
      | _ \<Rightarrow> Inl [invalid_type ''array'' v])"

text \<open>
  A schema for an object builds its output from pairs of a key and an output:
  the pair of a key named \<open>__proto__\<close> is left out, and so is a pair whose output is
  \<open>undefined\<close>, unless it is marked as always set.
\<close>

definition mergeObjectSync :: "(string \<times> json \<times> bool) list \<Rightarrow> json" where
  "mergeObjectSync pairs =
     JObject
       (map (\<lambda>(k, out, alwaysSet). (k, out))
          (filter (\<lambda>(k, out, alwaysSet).
                     if k = ''__proto__'' then False
                     else if out = JUndefined then alwaysSet else True)
             pairs))"

definition z_record :: "schema \<Rightarrow> schema" where
  "z_record s v =
     (case v of
        JObject kvs \<Rightarrow>
          (case collect (map (\<lambda>(k, x). inside (Key k) (s x)) kvs) of
             Inl issues \<Rightarrow> Inl issues
           | Inr outs \<Rightarrow>
               Inr (mergeObjectSync (map (\<lambda>(k, out). (k, out, True)) (zip (map fst kvs) outs))))
      | _ \<Rightarrow> Inl [invalid_type ''object'' v])"

text \<open>
  \<open>z.object(shape)\<close> validates every key of the shape against the property of that
  name (\<open>undefined\<close> when the object has none); such a key is always set if the input
  has the property. The properties that the shape does not name are dropped (\<open>strip\<close>,
  the default) or, after \<open>.passthrough()\<close>, kept behind the keys of the shape.
\<close>

datatype UnknownKeys = passthrough | strip

definition z_object_with :: "UnknownKeys \<Rightarrow> (string \<times> schema) list \<Rightarrow> schema" where
  "z_object_with unknownKeys shape v =
     (case v of
        JObject kvs \<Rightarrow>
          (case collect (map (\<lambda>(k, s). inside (Key k) (s (property kvs k))) shape) of
             Inl issues \<Rightarrow> Inl issues
           | Inr outs \<Rightarrow>
               Inr (mergeObjectSync
                 (map (\<lambda>(k, out). (k, out, has_key kvs k)) (zip (map fst shape) outs) @
                  (case unknownKeys of
                     strip \<Rightarrow> []
                   | passthrough \<Rightarrow>
                       map (\<lambda>(k, x). (k, x, False))
                         (filter (\<lambda>(k, x). k \<notin> set (map fst shape)) kvs)))))
      | _ \<Rightarrow> Inl [invalid_type ''object'' v])"

definition z_object :: "(string \<times> schema) list \<Rightarrow> schema" where
  "z_object shape = z_object_with strip shape"

definition parse :: "(ZodIssue list \<Rightarrow> string) \<Rightarrow> schema \<Rightarrow> json \<Rightarrow> thrown + json" where
  \<comment> \<open>\<open>schema.parse(data)\<close> throws a \<open>ZodError\<close>, an \<open>Error\<close> whose message is a rendering
      of the issues; the rendering is a parameter\<close>
  "parse ZodError_message s v =
     (case s v of Inl issues \<Rightarrow> Inl (Error (ZodError_message issues)) | Inr out \<Rightarrow> Inr out)"

definition member_of :: "json \<Rightarrow> string \<Rightarrow> thrown + json" where
  \<comment> \<open>reading a property: a \<open>TypeError\<close> on \<open>undefined\<close> and \<open>null\<close>, \<open>undefined\<close> on a
      value that has no such property\<close>
  "member_of v k =
     (case v of
        JObject kvs \<Rightarrow> Inr (property kvs k)
      | JUndefined \<Rightarrow>
          Inl (Error (''Cannot read properties of undefined (reading '' @ [CHR 0x27] @ k @ [CHR 0x27] @ '')''))
      | JNull \<Rightarrow>
          Inl (Error (''Cannot read properties of null (reading '' @ [CHR 0x27] @ k @ [CHR 0x27] @ '')''))
      | _ \<Rightarrow> Inr JUndefined)"

subsection \<open>The schemas of the module\<close>

definition CreateProjectSchema :: schema where
  "CreateProjectSchema = z_object [(''name'', z_string)]"

definition GetProjectsSchema :: schema where
  "GetProjectsSchema =
     z_object [(''page'', z_optional z_number), (''perPage'', z_optional z_number)]"

definition GetProjectSchema :: schema where
  "GetProjectSchema = z_object [(''id'', z_string)]"

definition UpdateProjectSchema :: schema where
  "UpdateProjectSchema = z_object [(''id'', z_string), (''name'', z_optional z_string)]"

definition DeleteProjectSchema :: schema where
  "DeleteProjectSchema = z_object [(''id'', z_string)]"

text \<open>
  Modelled from the spec: \<open>PlankaProjectSchema\<close> of \<open>common/types\<close>, which is not among
  the sources. A project is a record with at least an identifier (a string) and a name
  (a string); further fields of the remote service pass through. The operations do not
  use this definition; it stands for the parameter where a property is shown on a
  concrete run.
\<close>

definition PlankaProjectSchema_spec :: schema where
  "PlankaProjectSchema_spec =
     z_object_with passthrough [(''id'', z_string), (''name'', z_string)]"

text \<open>
  \<open>PlankaProjectSchema\<close> is imported from \<open>common/types\<close>; the response schemas take it
  as a parameter.
\<close>

definition ProjectsResponseSchema :: "schema \<Rightarrow> schema" where
  "ProjectsResponseSchema PlankaProjectSchema =
     z_object [(''items'', z_array PlankaProjectSchema),
               (''included'', z_optional (z_record z_any))]"

definition ProjectResponseSchema :: "schema \<Rightarrow> schema" where
  "ProjectResponseSchema PlankaProjectSchema =
     z_object [(''item'', PlankaProjectSchema),
               (''included'', z_optional (z_record z_any))]"

subsection \<open>The operations\<close>

text \<open>
  Every operation is one \<open>try\<close> block around the request and the validation, with a
  \<open>catch\<close> that throws a new \<open>Error\<close>: a fixed prefix followed by the message of what
  was caught. The parameter \<open>id\<close> of the source is \<open>project_id\<close> here, and the field
  \<open>id\<close> of the update options is \<open>id'\<close>. An argument that the caller leaves out, so that
  its default is used, is \<open>None\<close>.
\<close>

definition and_then :: "thrown + 'a \<Rightarrow> ('a \<Rightarrow> thrown + 'b) \<Rightarrow> thrown + 'b" where
  "and_then r f = (case r of Inl error \<Rightarrow> Inl error | Inr v \<Rightarrow> f v)"

definition try_catch :: "string \<Rightarrow> thrown + 'a \<Rightarrow> thrown + 'a" where
  "try_catch prefix r =
     (case r of Inl error \<Rightarrow> Inl (Error (prefix @ error_text error)) | Inr v \<Rightarrow> Inr v)"

record CreateProjectOptions =
  name :: string

record UpdateProjectOptions =
  id' :: string
  name :: "string option"

definition getProjects ::
    "'w plankaRequest \<Rightarrow> schema \<Rightarrow> (ZodIssue list \<Rightarrow> string) \<Rightarrow> (rat \<Rightarrow> string) \<Rightarrow>
     number option \<Rightarrow> number option \<Rightarrow> 'w \<Rightarrow> (thrown + json) \<times> 'w" where
  "getProjects plankaRequest PlankaProjectSchema ZodError_message printed page_arg perPage_arg w =
     (let page = (case page_arg of None \<Rightarrow> Finite 1 | Some n \<Rightarrow> n);
          perPage = (case perPage_arg of None \<Rightarrow> Finite 30 | Some n \<Rightarrow> n);
          perPage = (if number_gt perPage (Finite 100) then Finite 100 else perPage);
          queryParams = [];
          queryParams =
            URLSearchParams_append queryParams ''page'' (number_toString printed page);
          queryParams =
            URLSearchParams_append queryParams ''per_page'' (number_toString printed perPage);
          (response, w') =
            plankaRequest
              \<lparr>path = ''/api/projects?'' @ URLSearchParams_toString queryParams,
               method' = Some ''GET'', body = None\<rparr> w
      in (try_catch ''Failed to get projects: ''
            (and_then response
               (parse ZodError_message (ProjectsResponseSchema PlankaProjectSchema))),
          w'))"

definition getProject ::
    "'w plankaRequest \<Rightarrow> schema \<Rightarrow> (ZodIssue list \<Rightarrow> string) \<Rightarrow>
     string \<Rightarrow> 'w \<Rightarrow> (thrown + json) \<times> 'w" where
  "getProject plankaRequest PlankaProjectSchema ZodError_message project_id w =
     (let (response, w') =
            plankaRequest \<lparr>path = ''/api/projects/'' @ project_id, method' = None, body = None\<rparr> w
      in (try_catch ''Failed to get project: ''
            (and_then response (\<lambda>response.
             and_then (parse ZodError_message (ProjectResponseSchema PlankaProjectSchema) response)
               (\<lambda>parsedResponse. member_of parsedResponse ''item''))),
          w'))"

definition createProject ::
    "'w plankaRequest \<Rightarrow> schema \<Rightarrow> (ZodIssue list \<Rightarrow> string) \<Rightarrow>
     CreateProjectOptions \<Rightarrow> 'w \<Rightarrow> (thrown + json) \<times> 'w" where
  "createProject plankaRequest PlankaProjectSchema ZodError_message options w =
     (let (response, w') =
            plankaRequest
              \<lparr>path = ''/api/projects'', method' = Some ''POST'',
               body = Some (JObject [(''name'', JString (CreateProjectOptions.name options))])\<rparr> w
      in (try_catch ''Failed to create project: ''
            (and_then response (\<lambda>response.
             and_then (parse ZodError_message (ProjectResponseSchema PlankaProjectSchema) response)
               (\<lambda>parsedResponse. member_of parsedResponse ''item''))),
          w'))"

definition updateProject ::
    "'w plankaRequest \<Rightarrow> schema \<Rightarrow> (ZodIssue list \<Rightarrow> string) \<Rightarrow>
     UpdateProjectOptions \<Rightarrow> 'w \<Rightarrow> (thrown + json) \<times> 'w" where
  "updateProject plankaRequest PlankaProjectSchema ZodError_message options w =
     (let updateBody = [];
          updateBody =
            (case UpdateProjectOptions.name options of
               None \<Rightarrow> updateBody
             | Some n \<Rightarrow> updateBody @ [(''name'', JString n)]);
          (response, w') =
            plankaRequest
              \<lparr>path = ''/api/projects/'' @ id' options, method' = Some ''PATCH'',
               body = Some (JObject updateBody)\<rparr> w
      in (try_catch ''Failed to update project: ''
            (and_then response (\<lambda>response.
             and_then (parse ZodError_message (ProjectResponseSchema PlankaProjectSchema) response)
               (\<lambda>parsedResponse. member_of parsedResponse ''item''))),
          w'))"

definition deleteProject ::
    "'w plankaRequest \<Rightarrow> string \<Rightarrow> 'w \<Rightarrow> (thrown + json) \<times> 'w" where
  "deleteProject plankaRequest project_id w =
     (let (response, w') =
            plankaRequest
              \<lparr>path = ''/api/projects/'' @ project_id, method' = Some ''DELETE'', body = None\<rparr> w
      in (try_catch ''Failed to delete project: ''
            (and_then response (\<lambda>response. Inr (JObject [(''success'', JBool True)]))),
          w'))"

subsection \<open>Conforming responses\<close>

text \<open>
  The response shapes as the interface description gives them, written without the
  schema combinators:
  a collection is \<open>{ items: Project[], included?: map<string, any> }\<close>, a single
  response is \<open>{ item: Project, included?: map<string, any> }\<close>. A value is a
  \<open>Project\<close> when \<open>PlankaProjectSchema\<close> accepts it.
\<close>

definition optional_map :: "json \<Rightarrow> bool" where
  "optional_map v = (case v of JUndefined \<Rightarrow> True | JObject m \<Rightarrow> True | _ \<Rightarrow> False)"

definition conforms_ProjectsResponse :: "schema \<Rightarrow> json \<Rightarrow> bool" where
  "conforms_ProjectsResponse PlankaProjectSchema v =
     (case v of
        JObject kvs \<Rightarrow>
          (case property kvs ''items'' of
             JArray xs \<Rightarrow> list_all (accepts PlankaProjectSchema) xs
           | _ \<Rightarrow> False) \<and>
          optional_map (property kvs ''included'')
      | _ \<Rightarrow> False)"

definition conforms_ProjectResponse :: "schema \<Rightarrow> json \<Rightarrow> bool" where
  "conforms_ProjectResponse PlankaProjectSchema v =
     (case v of
        JObject kvs \<Rightarrow>
          accepts PlankaProjectSchema (property kvs ''item'') \<and>
          optional_map (property kvs ''included'')
      | _ \<Rightarrow> False)"

section \<open>Properties\<close>

subsection \<open>The query string of a page request\<close>

lemma digits_chars: "set (digits n) \<subseteq> set ''0123456789''"
proof (induction n rule: digits.induct)
  case (1 n)
  have last_digit: "''0123456789'' ! (n mod 10) \<in> set ''0123456789''"
    by (rule nth_mem) simp
  show ?case
  proof (cases "n < 10")
    case True
    then have "''0123456789'' ! n \<in> set ''0123456789''"
      by (intro nth_mem) simp
    with True show ?thesis
      by (subst digits.simps) simp
  next
    case False
    with 1 last_digit show ?thesis
      by (subst digits.simps) simp
  qed
qed

lemma urlencode_unreserved: "set s \<subseteq> set unreserved \<Longrightarrow> urlencode s = s"
  by (induction s) (auto simp: urlencode_def urlencode_byte_def unreserved_def)

lemma digits_unreserved: "set ''0123456789'' \<subseteq> set unreserved"
  by (simp add: unreserved_def)

lemma minus_unreserved: "CHR ''-'' \<in> set unreserved"
  by (simp add: unreserved_def)

lemma urlencode_decimal: "urlencode (decimal i) = decimal i"
proof (rule urlencode_unreserved)
  have "set (digits k) \<subseteq> set unreserved" for k
    using digits_chars [of k] digits_unreserved by (rule subset_trans)
  then show "set (decimal i) \<subseteq> set unreserved"
    using minus_unreserved by (simp add: decimal_def)
qed

lemma is_safe_integer_of_int:
  "is_safe_integer (of_int i) = (\<bar>i\<bar> \<le> 9007199254740991)"
proof -
  have "(\<bar>of_int i :: rat\<bar> \<le> 9007199254740991) = (\<bar>i\<bar> \<le> 9007199254740991)"
    by linarith
  then show ?thesis
    by (simp add: is_safe_integer_def)
qed

lemma number_toString_of_int:
  "\<bar>i\<bar> \<le> 9007199254740991 \<Longrightarrow> number_toString printed (Finite (of_int i)) = decimal i"
  by (simp add: number_toString_def is_safe_integer_of_int)

lemma query_string:
  "URLSearchParams_toString
     (URLSearchParams_append (URLSearchParams_append [] ''page'' a) ''per_page'' b) =
   ''page='' @ urlencode a @ ''&per_page='' @ urlencode b"
proof -
  have "urlencode ''page'' = ''page''" "urlencode ''per_page'' = ''per_page''"
    by (rule urlencode_unreserved, simp add: unreserved_def)+
  then show ?thesis
    by (simp add: URLSearchParams_toString_def URLSearchParams_append_def)
qed

lemma getProjects_sent:
  "snd (getProjects (logged remote) P fmt printed page_arg perPage_arg sent) =
   sent @
   [\<lparr>path = ''/api/projects?page='' @
             urlencode (number_toString printed
               (case page_arg of None \<Rightarrow> Finite 1 | Some n \<Rightarrow> n)) @
           ''&per_page='' @
             urlencode (number_toString printed
               (case perPage_arg of None \<Rightarrow> Finite 30
                | Some n \<Rightarrow> if number_gt n (Finite 100) then Finite 100 else n)),
     method' = Some ''GET'', body = None\<rparr>]"
  by (simp add: getProjects_def logged_def query_string Let_def split: option.split)

lemma not_above_100:
  "\<not> number_gt (if number_gt n (Finite 100) then Finite 100 else n) (Finite 100)"
  by simp

lemma decimal_values: "decimal 1 = ''1''" "decimal 30 = ''30''" "decimal 100 = ''100''"
  by (simp_all add: decimal_def digits.simps)

subsection \<open>Page size\<close>

text \<open>
  C1. Whatever \<open>getProjects\<close> is called with, the one request it makes carries, as
  \<open>per_page\<close>, 100 when the given \<open>perPage\<close> is above 100, the given value when it is
  not, and 30 when none is given, and as \<open>page\<close> the given page, or 1 when none is given;
  each value is sent as \<open>toString\<close> prints it, in the escaping of a query string. The
  \<open>per_page\<close> value sent is never above 100. Called without arguments the query is
  \<open>page=1&per_page=30\<close>, and for safe integers \<open>p\<close> and \<open>q\<close> it is the decimal of \<open>p\<close> and
  of the smaller of \<open>q\<close> and 100.
\<close>

theorem getProjects_per_page:
  "snd (getProjects (logged remote) P fmt printed page_arg perPage_arg sent) =
     sent @
     [\<lparr>path = ''/api/projects?page='' @
               urlencode (number_toString printed
                 (case page_arg of None \<Rightarrow> Finite 1 | Some n \<Rightarrow> n)) @
             ''&per_page='' @
               urlencode (number_toString printed
                 (case perPage_arg of None \<Rightarrow> Finite 30
                  | Some n \<Rightarrow> if number_gt n (Finite 100) then Finite 100 else n)),
       method' = Some ''GET'', body = None\<rparr>] \<and>
   \<not> number_gt
       (case perPage_arg of None \<Rightarrow> Finite 30
        | Some n \<Rightarrow> if number_gt n (Finite 100) then Finite 100 else n)
       (Finite 100) \<and>
   snd (getProjects (logged remote) P fmt printed None None sent) =
     sent @
     [\<lparr>path = ''/api/projects?page=1&per_page=30'', method' = Some ''GET'', body = None\<rparr>] \<and>
   (\<bar>p\<bar> \<le> 9007199254740991 \<and> \<bar>q\<bar> \<le> 9007199254740991 \<longrightarrow>
    snd (getProjects (logged remote) P fmt printed
           (Some (Finite (of_int p))) (Some (Finite (of_int q))) sent) =
      sent @
      [\<lparr>path = ''/api/projects?page='' @ decimal p @
                ''&per_page='' @ decimal (if 100 < q then 100 else q),
        method' = Some ''GET'', body = None\<rparr>])"
proof (intro conjI impI)
  show "snd (getProjects (logged remote) P fmt printed None None sent) =
     sent @
     [\<lparr>path = ''/api/projects?page=1&per_page=30'', method' = Some ''GET'', body = None\<rparr>]"
  proof -
    have "urlencode (number_toString printed (Finite 1)) = ''1''"
      using number_toString_of_int [of 1 printed] urlencode_decimal [of 1]
      by (simp add: decimal_values)
    moreover have "urlencode (number_toString printed (Finite 30)) = ''30''"
      using number_toString_of_int [of 30 printed] urlencode_decimal [of 30]
      by (simp add: decimal_values)
    ultimately show ?thesis
      by (simp add: getProjects_sent)
  qed
next
  assume b: "\<bar>p\<bar> \<le> 9007199254740991 \<and> \<bar>q\<bar> \<le> 9007199254740991"
  have "number_gt (Finite (of_int q)) (Finite 100) = (100 < q)"
    by simp
  then show "snd (getProjects (logged remote) P fmt printed
           (Some (Finite (of_int p))) (Some (Finite (of_int q))) sent) =
      sent @
      [\<lparr>path = ''/api/projects?page='' @ decimal p @
                ''&per_page='' @ decimal (if 100 < q then 100 else q),
        method' = Some ''GET'', body = None\<rparr>]"
    using b number_toString_of_int [of 100 printed]
    by (simp add: getProjects_sent number_toString_of_int urlencode_decimal)
qed (simp_all add: getProjects_sent split: option.split)

text \<open>
  A page size of 150 is sent as 100, one of 100 as it is, and none as 30. A page of
  \<open>10^21\<close>, printed \<open>1e+21\<close>, is sent as \<open>1e%2B21\<close>; a page size of \<open>NaN\<close>, which is not
  above 100, is sent as it is, and an infinite one as 100.
\<close>

theorem getProjects_per_page_witness:
  "(\<bar>1 :: int\<bar> \<le> 9007199254740991 \<and> \<bar>150 :: int\<bar> \<le> 9007199254740991) \<and>
   snd (getProjects (logged (\<lambda>r. Inr (JObject [(''items'', JArray [])]))) PlankaProjectSchema_spec
          (\<lambda>issues. concat (map message issues)) (\<lambda>r. ''1e+21'')
          (Some (Finite 1)) (Some (Finite 150)) []) =
     [\<lparr>path = ''/api/projects?page=1&per_page=100'', method' = Some ''GET'', body = None\<rparr>] \<and>
   snd (getProjects (logged (\<lambda>r. Inr (JObject [(''items'', JArray [])]))) PlankaProjectSchema_spec
          (\<lambda>issues. concat (map message issues)) (\<lambda>r. ''1e+21'')
          (Some (Finite 3)) (Some (Finite 100)) []) =
     [\<lparr>path = ''/api/projects?page=3&per_page=100'', method' = Some ''GET'', body = None\<rparr>] \<and>
   snd (getProjects (logged (\<lambda>r. Inr (JObject [(''items'', JArray [])]))) PlankaProjectSchema_spec
          (\<lambda>issues. concat (map message issues)) (\<lambda>r. ''1e+21'') None None []) =
     [\<lparr>path = ''/api/projects?page=1&per_page=30'', method' = Some ''GET'', body = None\<rparr>] \<and>
   snd (getProjects (logged (\<lambda>r. Inr (JObject [(''items'', JArray [])]))) PlankaProjectSchema_spec
          (\<lambda>issues. concat (map message issues)) (\<lambda>r. ''1e+21'')
          (Some (Finite 1000000000000000000000)) (Some NaN) []) =
     [\<lparr>path = ''/api/projects?page=1e%2B21&per_page=NaN'', method' = Some ''GET'',
       body = None\<rparr>] \<and>
   snd (getProjects (logged (\<lambda>r. Inr (JObject [(''items'', JArray [])]))) PlankaProjectSchema_spec
          (\<lambda>issues. concat (map message issues)) (\<lambda>r. ''1e+21'')
          (Some (Finite 1)) (Some Infinity) []) =
     [\<lparr>path = ''/api/projects?page=1&per_page=100'', method' = Some ''GET'', body = None\<rparr>]"
proof -
  let ?remote = "\<lambda>r :: request. Inr (JObject [(''items'', JArray [])]) :: thrown + json"
  let ?fmt = "\<lambda>issues. concat (map message issues)"
  let ?printed = "\<lambda>r :: rat. ''1e+21''"
  have d: "decimal 1 = ''1''" "decimal 3 = ''3''" "decimal 100 = ''100''"
    by (simp_all add: decimal_def digits.simps)
  have big: "number_toString ?printed (Finite 1000000000000000000000) = ''1e+21''"
    by (simp add: number_toString_def is_safe_integer_def)
  have special: "number_toString ?printed NaN = ''NaN''"
    by (simp add: number_toString_def)
  have one: "number_toString ?printed (Finite 1) = ''1''"
    using number_toString_of_int [of 1 ?printed] by (simp add: d)
  have hundred: "number_toString ?printed (Finite 100) = ''100''"
    using number_toString_of_int [of 100 ?printed] by (simp add: d)
  have e: "urlencode ''1e+21'' = ''1e%2B21''" "urlencode ''NaN'' = ''NaN''"
    "urlencode ''1'' = ''1''" "urlencode ''100'' = ''100''"
    by (simp_all add: urlencode_def urlencode_byte_def unreserved_def)
  note a = getProjects_per_page
      [where remote = ?remote and P = PlankaProjectSchema_spec and fmt = ?fmt
         and printed = ?printed and sent = "[]" and p = 1 and q = 150
         and page_arg = "Some (Finite 1000000000000000000000)" and perPage_arg = "Some NaN"]
  note b = getProjects_per_page
      [where remote = ?remote and P = PlankaProjectSchema_spec and fmt = ?fmt
         and printed = ?printed and sent = "[]" and p = 3 and q = 100
         and page_arg = "Some (Finite 1)" and perPage_arg = "Some Infinity"]
  show ?thesis
    using a b by (simp add: d big special one hundred e)
qed

subsection \<open>What the response schemas accept\<close>

text \<open>
  The two response schemas accept exactly the values of the shapes written out above.
\<close>

lemma isl_inside: "isl (inside e r) = isl r"
  by (cases r) (simp_all add: inside_def)

lemma isl_collect: "isl (collect rs) = list_ex isl rs"
  by (induction rs) (auto split: sum.splits)

lemma accepts_iff: "accepts s v = (\<not> isl (s v))"
  by (cases "s v") (simp_all add: accepts_def)

lemma array_results:
  "list_ex isl (map (\<lambda>(i, x). inside (Index i) (s x)) (enumerate k xs)) =
   (\<not> list_all (accepts s) xs)"
  by (induction xs arbitrary: k) (auto simp: isl_inside accepts_iff)

lemma accepts_z_array:
  "accepts (z_array s) v = (case v of JArray xs \<Rightarrow> list_all (accepts s) xs | _ \<Rightarrow> False)"
proof (cases v)
  case (JArray xs)
  have "isl (z_array s (JArray xs)) =
        isl (collect (map (\<lambda>(i, x). inside (Index i) (s x)) (enumerate 0 xs)))"
    by (simp add: z_array_def split: sum.split)
  with JArray show ?thesis
    by (simp add: accepts_iff isl_collect array_results)
qed (simp_all add: accepts_def z_array_def)

lemma collect_any: "collect (map (\<lambda>(k, x). inside (Key k) (z_any x)) kvs) = Inr (map snd kvs)"
  by (induction kvs) (auto simp: z_any_def inside_def)

lemma z_record_any:
  "z_record z_any v =
   (case v of
      JObject m \<Rightarrow> Inr (mergeObjectSync (map (\<lambda>(k, out). (k, out, True)) m))
    | _ \<Rightarrow> Inl [invalid_type ''object'' v])"
  by (cases v) (simp_all add: z_record_def collect_any zip_map_fst_snd)

lemma accepts_included:
  "accepts (z_optional (z_record z_any)) v = optional_map v"
  by (cases v) (simp_all add: accepts_def z_optional_def z_record_any optional_map_def)

lemma isl_z_object_with:
  "isl (z_object_with u shape (JObject kvs)) =
   isl (collect (map (\<lambda>(k, s). inside (Key k) (s (property kvs k))) shape))"
  by (simp add: z_object_with_def mergeObjectSync_def split: sum.split)

lemma accepts_z_object2:
  "accepts (z_object [(k1, s1), (k2, s2)]) v =
   (case v of JObject kvs \<Rightarrow> accepts s1 (property kvs k1) \<and> accepts s2 (property kvs k2)
    | _ \<Rightarrow> False)"
proof (cases v)
  case (JObject kvs)
  then show ?thesis
    unfolding accepts_iff z_object_def
    by (simp only: isl_z_object_with isl_collect) (simp add: isl_inside)
qed (simp_all add: accepts_def z_object_def z_object_with_def mergeObjectSync_def)

lemma accepts_ProjectsResponseSchema:
  "accepts (ProjectsResponseSchema P) v = conforms_ProjectsResponse P v"
  by (cases v)
    (simp_all add: ProjectsResponseSchema_def conforms_ProjectsResponse_def
      accepts_z_object2 accepts_included accepts_z_array)

lemma accepts_ProjectResponseSchema:
  "accepts (ProjectResponseSchema P) v = conforms_ProjectResponse P v"
  by (cases v)
    (simp_all add: ProjectResponseSchema_def conforms_ProjectResponse_def
      accepts_z_object2 accepts_included)

lemma z_object_with_is_object:
  "z_object_with u shape v = Inr out \<Longrightarrow> \<exists>kvs. out = JObject kvs"
  by (auto simp: z_object_with_def mergeObjectSync_def split: json.splits sum.splits)

lemma collect2:
  "collect [a, b] = Inr outs \<Longrightarrow> \<exists>x y. a = Inr x \<and> b = Inr y \<and> outs = [x, y]"
  by (auto split: sum.splits)

lemma inside_Inr: "inside e r = Inr x \<Longrightarrow> r = Inr x"
  by (cases r) (simp_all add: inside_def)

lemma ProjectResponseSchema_item:
  assumes "ProjectResponseSchema P (JObject kvs) = Inr out"
  shows "\<exists>item. P (property kvs ''item'') = Inr item \<and> member_of out ''item'' = Inr item"
proof -
  from assms obtain outs where
    c: "collect [inside (Key ''item'') (P (property kvs ''item'')),
                 inside (Key ''included'') (z_optional (z_record z_any) (property kvs ''included''))]
        = Inr outs"
    and out: "out = mergeObjectSync
                (map (\<lambda>(k, out). (k, out, has_key kvs k)) (zip [''item'', ''included''] outs))"
    by (auto simp: ProjectResponseSchema_def z_object_def z_object_with_def mergeObjectSync_def split: sum.splits)
  from collect2 [OF c] obtain item inc where
    "P (property kvs ''item'') = Inr item" and "outs = [item, inc]"
    by (auto dest: inside_Inr)
  with out show ?thesis
    by (auto simp: member_of_def property_def mergeObjectSync_def)
qed

subsection \<open>One request, one outcome\<close>

text \<open>
  The outcome of an operation as a function of what the request function does with the
  one request the operation makes.
\<close>

lemma getProjects_fst:
  "fst (getProjects plankaRequest P fmt printed page_arg perPage_arg w) =
   try_catch ''Failed to get projects: ''
     (and_then
        (fst (plankaRequest
               \<lparr>path = ''/api/projects?page='' @
                         urlencode (number_toString printed
                           (case page_arg of None \<Rightarrow> Finite 1 | Some n \<Rightarrow> n)) @
                       ''&per_page='' @
                         urlencode (number_toString printed
                           (case perPage_arg of None \<Rightarrow> Finite 30
                            | Some n \<Rightarrow> if number_gt n (Finite 100) then Finite 100 else n)),
                method' = Some ''GET'', body = None\<rparr> w))
        (parse fmt (ProjectsResponseSchema P)))"
  by (simp add: getProjects_def query_string Let_def split_beta split: option.split)

lemma getProject_fst:
  "fst (getProject plankaRequest P fmt i w) =
   try_catch ''Failed to get project: ''
     (and_then
        (fst (plankaRequest \<lparr>path = ''/api/projects/'' @ i, method' = None, body = None\<rparr> w))
        (\<lambda>response. and_then (parse fmt (ProjectResponseSchema P) response)
           (\<lambda>parsedResponse. member_of parsedResponse ''item'')))"
  by (simp add: getProject_def split_beta)

lemma createProject_fst:
  "fst (createProject plankaRequest P fmt options w) =
   try_catch ''Failed to create project: ''
     (and_then
        (fst (plankaRequest
               \<lparr>path = ''/api/projects'', method' = Some ''POST'',
                body = Some (JObject [(''name'', JString (CreateProjectOptions.name options))])\<rparr> w))
        (\<lambda>response. and_then (parse fmt (ProjectResponseSchema P) response)
           (\<lambda>parsedResponse. member_of parsedResponse ''item'')))"
  by (simp add: createProject_def split_beta)

lemma updateProject_fst:
  "fst (updateProject plankaRequest P fmt options w) =
   try_catch ''Failed to update project: ''
     (and_then
        (fst (plankaRequest
               \<lparr>path = ''/api/projects/'' @ id' options, method' = Some ''PATCH'',
                body = Some (JObject (case UpdateProjectOptions.name options of
                                        None \<Rightarrow> [] | Some n \<Rightarrow> [(''name'', JString n)]))\<rparr> w))
        (\<lambda>response. and_then (parse fmt (ProjectResponseSchema P) response)
           (\<lambda>parsedResponse. member_of parsedResponse ''item'')))"
  by (simp add: updateProject_def Let_def split_beta split: option.split)

lemma deleteProject_fst:
  "fst (deleteProject plankaRequest i w) =
   try_catch ''Failed to delete project: ''
     (and_then
        (fst (plankaRequest
               \<lparr>path = ''/api/projects/'' @ i, method' = Some ''DELETE'', body = None\<rparr> w))
        (\<lambda>response. Inr (JObject [(''success'', JBool True)])))"
  by (simp add: deleteProject_def split_beta)

lemma rejected:
  "\<not> accepts s v \<Longrightarrow> \<exists>issues. s v = Inl issues"
  by (cases "s v") (simp_all add: accepts_def)

lemma raised:
  "try_catch prefix (and_then (Inl e) f) = Inl (Error (prefix @ error_text e))"
  by (simp add: try_catch_def and_then_def)

lemma invalid:
  "s response = Inl issues \<Longrightarrow>
   try_catch prefix (and_then (Inr response) (\<lambda>response. and_then (parse fmt s response) f)) =
   Inl (Error (prefix @ fmt issues))"
  by (simp add: try_catch_def and_then_def parse_def error_text_def)

lemma invalid_list:
  "s response = Inl issues \<Longrightarrow>
   try_catch prefix (and_then (Inr response) (parse fmt s)) =
   Inl (Error (prefix @ fmt issues))"
  by (simp add: try_catch_def and_then_def parse_def error_text_def)

lemma try_catch_shape:
  "(case try_catch prefix r of
      Inl x \<Rightarrow> \<exists>m. x = Error (prefix @ m) | Inr v \<Rightarrow> True)"
  by (cases r) (simp_all add: try_catch_def)

lemma valid_item:
  assumes "conforms_ProjectResponse P response"
  shows "\<exists>kvs item. response = JObject kvs \<and> P (property kvs ''item'') = Inr item \<and>
           try_catch prefix (and_then (Inr response)
             (\<lambda>response. and_then (parse fmt (ProjectResponseSchema P) response)
                (\<lambda>parsedResponse. member_of parsedResponse ''item''))) = Inr item"
proof -
  from assms obtain kvs where kvs: "response = JObject kvs"
    by (cases response) (simp_all add: conforms_ProjectResponse_def)
  from assms have "accepts (ProjectResponseSchema P) response"
    by (simp add: accepts_ProjectResponseSchema)
  then obtain out where out: "ProjectResponseSchema P response = Inr out"
    by (cases "ProjectResponseSchema P response") (simp_all add: accepts_def)
  with kvs obtain item where
    "P (property kvs ''item'') = Inr item" "member_of out ''item'' = Inr item"
    using ProjectResponseSchema_item by blast
  with kvs out show ?thesis
    by (simp add: try_catch_def and_then_def parse_def)
qed

subsection \<open>Responses that do not conform\<close>

text \<open>
  C2. When the request function gives \<open>getProjects\<close>, \<open>getProject\<close>, \<open>createProject\<close> or
  \<open>updateProject\<close> a response that does not conform to the response schema of the
  operation, the operation throws: its result is an error made from the issues of the
  validation, never a value.
\<close>

theorem nonconforming_response_fails:
  "(fst (plankaRequest
          \<lparr>path = ''/api/projects?page='' @
                    urlencode (number_toString printed
                      (case page_arg of None \<Rightarrow> Finite 1 | Some n \<Rightarrow> n)) @
                  ''&per_page='' @
                    urlencode (number_toString printed
                      (case perPage_arg of None \<Rightarrow> Finite 30
                       | Some n \<Rightarrow> if number_gt n (Finite 100) then Finite 100 else n)),
           method' = Some ''GET'', body = None\<rparr> w) = Inr response \<and>
    \<not> conforms_ProjectsResponse P response \<longrightarrow>
    (\<exists>issues. fst (getProjects plankaRequest P fmt printed page_arg perPage_arg w) =
       Inl (Error (''Failed to get projects: '' @ fmt issues)))) \<and>
   (fst (plankaRequest \<lparr>path = ''/api/projects/'' @ i, method' = None, body = None\<rparr> w) =
      Inr response \<and>
    \<not> conforms_ProjectResponse P response \<longrightarrow>
    (\<exists>issues. fst (getProject plankaRequest P fmt i w) =
       Inl (Error (''Failed to get project: '' @ fmt issues)))) \<and>
   (fst (plankaRequest
          \<lparr>path = ''/api/projects'', method' = Some ''POST'',
           body = Some (JObject [(''name'', JString (CreateProjectOptions.name c))])\<rparr> w) =
      Inr response \<and>
    \<not> conforms_ProjectResponse P response \<longrightarrow>
    (\<exists>issues. fst (createProject plankaRequest P fmt c w) =
       Inl (Error (''Failed to create project: '' @ fmt issues)))) \<and>
   (fst (plankaRequest
          \<lparr>path = ''/api/projects/'' @ id' u, method' = Some ''PATCH'',
           body = Some (JObject (case UpdateProjectOptions.name u of
                                   None \<Rightarrow> [] | Some n \<Rightarrow> [(''name'', JString n)]))\<rparr> w) =
      Inr response \<and>
    \<not> conforms_ProjectResponse P response \<longrightarrow>
    (\<exists>issues. fst (updateProject plankaRequest P fmt u w) =
       Inl (Error (''Failed to update project: '' @ fmt issues))))"
proof (intro conjI impI; elim conjE)
  assume "\<not> conforms_ProjectsResponse P response"
  then obtain issues where "ProjectsResponseSchema P response = Inl issues"
    using rejected [of "ProjectsResponseSchema P" response]
    by (auto simp: accepts_ProjectsResponseSchema)
  moreover assume "fst (plankaRequest
          \<lparr>path = ''/api/projects?page='' @
                    urlencode (number_toString printed
                      (case page_arg of None \<Rightarrow> Finite 1 | Some n \<Rightarrow> n)) @
                  ''&per_page='' @
                    urlencode (number_toString printed
                      (case perPage_arg of None \<Rightarrow> Finite 30
                       | Some n \<Rightarrow> if number_gt n (Finite 100) then Finite 100 else n)),
           method' = Some ''GET'', body = None\<rparr> w) = Inr response"
  ultimately show "\<exists>issues. fst (getProjects plankaRequest P fmt printed page_arg perPage_arg w) =
       Inl (Error (''Failed to get projects: '' @ fmt issues))"
    by (auto simp: getProjects_fst invalid_list)
next
  assume "\<not> conforms_ProjectResponse P response"
  then obtain issues where i: "ProjectResponseSchema P response = Inl issues"
    using rejected [of "ProjectResponseSchema P" response]
    by (auto simp: accepts_ProjectResponseSchema)
  {
    assume "fst (plankaRequest \<lparr>path = ''/api/projects/'' @ i, method' = None, body = None\<rparr> w) =
      Inr response"
    with i show "\<exists>issues. fst (getProject plankaRequest P fmt i w) =
       Inl (Error (''Failed to get project: '' @ fmt issues))"
      by (auto simp: getProject_fst invalid)
  }
  {
    assume "fst (plankaRequest
          \<lparr>path = ''/api/projects'', method' = Some ''POST'',
           body = Some (JObject [(''name'', JString (CreateProjectOptions.name c))])\<rparr> w) =
      Inr response"
    with i show "\<exists>issues. fst (createProject plankaRequest P fmt c w) =
       Inl (Error (''Failed to create project: '' @ fmt issues))"
      by (auto simp: createProject_fst invalid)
  }
  {
    assume "fst (plankaRequest
          \<lparr>path = ''/api/projects/'' @ id' u, method' = Some ''PATCH'',
           body = Some (JObject (case UpdateProjectOptions.name u of
                                   None \<Rightarrow> [] | Some n \<Rightarrow> [(''name'', JString n)]))\<rparr> w) =
      Inr response"
    with i show "\<exists>issues. fst (updateProject plankaRequest P fmt u w) =
       Inl (Error (''Failed to update project: '' @ fmt issues))"
      by (auto simp: updateProject_fst invalid)
  }
qed

text \<open>
  The empty object has neither \<open>items\<close> nor \<open>item\<close>; all four operations fail on it.
\<close>

theorem nonconforming_response_fails_witness:
  "\<not> conforms_ProjectsResponse PlankaProjectSchema_spec (JObject []) \<and>
   \<not> conforms_ProjectResponse PlankaProjectSchema_spec (JObject []) \<and>
   (\<exists>issues. fst (getProjects (logged (\<lambda>r. Inr (JObject []))) PlankaProjectSchema_spec
                    (\<lambda>issues. concat (map message issues)) (\<lambda>r. ''1e+21'') None None []) =
      Inl (Error (''Failed to get projects: '' @ concat (map message issues)))) \<and>
   (\<exists>issues. fst (getProject (logged (\<lambda>r. Inr (JObject []))) PlankaProjectSchema_spec
                    (\<lambda>issues. concat (map message issues)) ''42'' []) =
      Inl (Error (''Failed to get project: '' @ concat (map message issues)))) \<and>
   (\<exists>issues. fst (createProject (logged (\<lambda>r. Inr (JObject []))) PlankaProjectSchema_spec
                    (\<lambda>issues. concat (map message issues))
                    \<lparr>CreateProjectOptions.name = ''New''\<rparr> []) =
      Inl (Error (''Failed to create project: '' @ concat (map message issues)))) \<and>
   (\<exists>issues. fst (updateProject (logged (\<lambda>r. Inr (JObject []))) PlankaProjectSchema_spec
                    (\<lambda>issues. concat (map message issues))
                    \<lparr>id' = ''5'', name = Some ''X''\<rparr> []) =
      Inl (Error (''Failed to update project: '' @ concat (map message issues))))"
proof -
  have n1: "\<not> conforms_ProjectsResponse PlankaProjectSchema_spec (JObject [])"
    by (simp add: conforms_ProjectsResponse_def property_def)
  have n2: "\<not> conforms_ProjectResponse PlankaProjectSchema_spec (JObject [])"
    by (simp add: conforms_ProjectResponse_def property_def accepts_def
        PlankaProjectSchema_spec_def z_object_with_def mergeObjectSync_def)
  show ?thesis
    using n1 n2
      nonconforming_response_fails
        [where plankaRequest = "logged (\<lambda>r. Inr (JObject []))" and response = "JObject []"
           and P = PlankaProjectSchema_spec and w = "[]"
           and fmt = "\<lambda>issues. concat (map message issues)"
           and printed = "\<lambda>r. ''1e+21''" and page_arg = None and perPage_arg = None and i = "''42''"
           and c = "\<lparr>CreateProjectOptions.name = ''New''\<rparr>"
           and u = "\<lparr>id' = ''5'', name = Some ''X''\<rparr>"]
    by (simp add: logged_def)
qed

subsection \<open>The body of an update\<close>

text \<open>
  C3. The body that \<open>updateProject\<close> sends with its PATCH request holds the keys the
  caller gave a value for and no other: called with an \<open>id\<close> only it sends the empty
  object, called with an \<open>id\<close> and a \<open>name\<close> it sends an object with the one key
  \<open>name\<close>. The \<open>id\<close> is in the path and not in the body, and a \<open>name\<close> that was left
  out is not sent as \<open>null\<close>.
\<close>

theorem updateProject_body:
  "snd (updateProject (logged remote) P fmt \<lparr>id' = i, name = None\<rparr> sent) =
     sent @ [\<lparr>path = ''/api/projects/'' @ i, method' = Some ''PATCH'',
              body = Some (JObject [])\<rparr>] \<and>
   snd (updateProject (logged remote) P fmt \<lparr>id' = i, name = Some n\<rparr> sent) =
     sent @ [\<lparr>path = ''/api/projects/'' @ i, method' = Some ''PATCH'',
              body = Some (JObject [(''name'', JString n)])\<rparr>]"
  by (simp add: updateProject_def logged_def Let_def)

text \<open>
  The two calls for the project with id 5.
\<close>

theorem updateProject_body_witness:
  "snd (updateProject (logged (\<lambda>r. Inl (Error ''Not Found''))) PlankaProjectSchema_spec
          (\<lambda>issues. concat (map message issues)) \<lparr>id' = ''5'', name = None\<rparr> []) =
     [\<lparr>path = ''/api/projects/5'', method' = Some ''PATCH'', body = Some (JObject [])\<rparr>] \<and>
   snd (updateProject (logged (\<lambda>r. Inl (Error ''Not Found''))) PlankaProjectSchema_spec
          (\<lambda>issues. concat (map message issues)) \<lparr>id' = ''5'', name = Some ''X''\<rparr> []) =
     [\<lparr>path = ''/api/projects/5'', method' = Some ''PATCH'',
       body = Some (JObject [(''name'', JString ''X'')])\<rparr>]"
  using
    updateProject_body
      [where i = "''5''" and n = "''X''" and sent = "[]" and P = PlankaProjectSchema_spec
         and remote = "\<lambda>r. Inl (Error ''Not Found'')"
         and fmt = "\<lambda>issues. concat (map message issues)"]
  by simp

subsection \<open>Deleting\<close>

text \<open>
  C5. If the request that \<open>deleteProject\<close> makes does not throw, the result is the
  object \<open>{success: true}\<close>, whatever the request function returned.
\<close>

theorem deleteProject_success:
  "fst (plankaRequest
         \<lparr>path = ''/api/projects/'' @ i, method' = Some ''DELETE'', body = None\<rparr> w) =
     Inr response \<Longrightarrow>
   fst (deleteProject plankaRequest i w) = Inr (JObject [(''success'', JBool True)])"
  by (simp add: deleteProject_fst try_catch_def and_then_def)

theorem deleteProject_success_witness:
  "fst (logged (\<lambda>r. Inr (JString ''not a project''))
         \<lparr>path = ''/api/projects/'' @ ''7'', method' = Some ''DELETE'', body = None\<rparr> []) =
     Inr (JString ''not a project'') \<and>
   fst (deleteProject (logged (\<lambda>r. Inr (JString ''not a project''))) ''7'' []) =
     Inr (JObject [(''success'', JBool True)])"
proof -
  have h: "fst (logged (\<lambda>r. Inr (JString ''not a project''))
         \<lparr>path = ''/api/projects/'' @ ''7'', method' = Some ''DELETE'', body = None\<rparr> []) =
     Inr (JString ''not a project'')"
    by (simp add: logged_def)
  show ?thesis
    using h
      deleteProject_success
        [where plankaRequest = "logged (\<lambda>r. Inr (JString ''not a project''))"
           and i = "''7''" and w = "[]", OF h]
    by simp
qed

subsection \<open>The item of a single response\<close>

text \<open>
  C6. If the request that \<open>getProject\<close> makes returns a conforming single response,
  the result is the validated \<open>item\<close> of that response, that is, what
  \<open>PlankaProjectSchema\<close> makes of its property \<open>item\<close>; nothing of \<open>included\<close> is in it.
\<close>

theorem getProject_returns_item:
  assumes "fst (plankaRequest
                 \<lparr>path = ''/api/projects/'' @ i, method' = None, body = None\<rparr> w) =
           Inr response"
    and "conforms_ProjectResponse P response"
  shows "\<exists>kvs item. response = JObject kvs \<and> P (property kvs ''item'') = Inr item \<and>
           fst (getProject plankaRequest P fmt i w) = Inr item"
  using valid_item [OF assms(2)] assms(1) by (simp add: getProject_fst)

theorem getProject_returns_item_witness:
  "conforms_ProjectResponse PlankaProjectSchema_spec
     (JObject [(''item'', JObject [(''id'', JString ''42''), (''name'', JString ''Demo'')]),
               (''included'', JObject [(''users'', JArray [])])]) \<and>
   fst (getProject
         (logged (\<lambda>r. Inr (JObject
            [(''item'', JObject [(''id'', JString ''42''), (''name'', JString ''Demo'')]),
             (''included'', JObject [(''users'', JArray [])])])))
         PlankaProjectSchema_spec (\<lambda>issues. concat (map message issues)) ''42'' []) =
     Inr (JObject [(''id'', JString ''42''), (''name'', JString ''Demo'')])"
proof -
  let ?response = "JObject
            [(''item'', JObject [(''id'', JString ''42''), (''name'', JString ''Demo'')]),
             (''included'', JObject [(''users'', JArray [])])]"
  have item: "PlankaProjectSchema_spec (JObject [(''id'', JString ''42''), (''name'', JString ''Demo'')]) =
      Inr (JObject [(''id'', JString ''42''), (''name'', JString ''Demo'')])"
    by (simp add: PlankaProjectSchema_spec_def z_object_with_def mergeObjectSync_def property_def z_string_def
        inside_def)
  have h1: "fst (logged (\<lambda>r. Inr ?response)
                 \<lparr>path = ''/api/projects/'' @ ''42'', method' = None, body = None\<rparr> []) =
           Inr ?response"
    by (simp add: logged_def)
  have h2: "conforms_ProjectResponse PlankaProjectSchema_spec ?response"
    by (simp add: conforms_ProjectResponse_def property_def accepts_def optional_map_def item)
  from getProject_returns_item
         [where plankaRequest = "logged (\<lambda>r. Inr ?response)" and i = "''42''" and w = "[]"
            and fmt = "\<lambda>issues. concat (map message issues)", OF h1 h2]
  show ?thesis
    using h2 by (auto simp: property_def item)
qed

subsection \<open>Errors\<close>

text \<open>
  C4. Whatever goes wrong in an operation comes out as one kind of error, an \<open>Error\<close>
  whose message is \<open>Failed to get projects: \<close>, \<open>Failed to get project: \<close>,
  \<open>Failed to create project: \<close>, \<open>Failed to update project: \<close> or
  \<open>Failed to delete project: \<close> followed by the message of the cause: when the request
  throws \<open>e\<close>, the message of \<open>e\<close> (or \<open>String(e)\<close> when \<open>e\<close> is no \<open>Error\<close>), and when
  the response is invalid, the message of the validation error. Nothing else is thrown
  by any of the five operations, so a missing project, an invalid response and a failed
  connection are not told apart.
\<close>

theorem failures_are_wrapped:
  "(fst (plankaRequest
          \<lparr>path = ''/api/projects?page='' @
                    urlencode (number_toString printed
                      (case page_arg of None \<Rightarrow> Finite 1 | Some n \<Rightarrow> n)) @
                  ''&per_page='' @
                    urlencode (number_toString printed
                      (case perPage_arg of None \<Rightarrow> Finite 30
                       | Some n \<Rightarrow> if number_gt n (Finite 100) then Finite 100 else n)),
           method' = Some ''GET'', body = None\<rparr> w) = Inl e \<longrightarrow>
    fst (getProjects plankaRequest P fmt printed page_arg perPage_arg w) =
      Inl (Error (''Failed to get projects: '' @ error_text e))) \<and>
   (fst (plankaRequest \<lparr>path = ''/api/projects/'' @ i, method' = None, body = None\<rparr> w) =
      Inl e \<longrightarrow>
    fst (getProject plankaRequest P fmt i w) =
      Inl (Error (''Failed to get project: '' @ error_text e))) \<and>
   (fst (plankaRequest
          \<lparr>path = ''/api/projects'', method' = Some ''POST'',
           body = Some (JObject [(''name'', JString (CreateProjectOptions.name c))])\<rparr> w) =
      Inl e \<longrightarrow>
    fst (createProject plankaRequest P fmt c w) =
      Inl (Error (''Failed to create project: '' @ error_text e))) \<and>
   (fst (plankaRequest
          \<lparr>path = ''/api/projects/'' @ id' u, method' = Some ''PATCH'',
           body = Some (JObject (case UpdateProjectOptions.name u of
                                   None \<Rightarrow> [] | Some n \<Rightarrow> [(''name'', JString n)]))\<rparr> w) =
      Inl e \<longrightarrow>
    fst (updateProject plankaRequest P fmt u w) =
      Inl (Error (''Failed to update project: '' @ error_text e))) \<and>
   (fst (plankaRequest
          \<lparr>path = ''/api/projects/'' @ i, method' = Some ''DELETE'', body = None\<rparr> w) =
      Inl e \<longrightarrow>
    fst (deleteProject plankaRequest i w) =
      Inl (Error (''Failed to delete project: '' @ error_text e))) \<and>
   (fst (plankaRequest
          \<lparr>path = ''/api/projects?page='' @
                    urlencode (number_toString printed
                      (case page_arg of None \<Rightarrow> Finite 1 | Some n \<Rightarrow> n)) @
                  ''&per_page='' @
                    urlencode (number_toString printed
                      (case perPage_arg of None \<Rightarrow> Finite 30
                       | Some n \<Rightarrow> if number_gt n (Finite 100) then Finite 100 else n)),
           method' = Some ''GET'', body = None\<rparr> w) = Inr response \<and>
    ProjectsResponseSchema P response = Inl issues \<longrightarrow>
    fst (getProjects plankaRequest P fmt printed page_arg perPage_arg w) =
      Inl (Error (''Failed to get projects: '' @ fmt issues))) \<and>
   (fst (plankaRequest \<lparr>path = ''/api/projects/'' @ i, method' = None, body = None\<rparr> w) =
      Inr response \<and>
    ProjectResponseSchema P response = Inl issues \<longrightarrow>
    fst (getProject plankaRequest P fmt i w) =
      Inl (Error (''Failed to get project: '' @ fmt issues))) \<and>
   (fst (plankaRequest
          \<lparr>path = ''/api/projects'', method' = Some ''POST'',
           body = Some (JObject [(''name'', JString (CreateProjectOptions.name c))])\<rparr> w) =
      Inr response \<and>
    ProjectResponseSchema P response = Inl issues \<longrightarrow>
    fst (createProject plankaRequest P fmt c w) =
      Inl (Error (''Failed to create project: '' @ fmt issues))) \<and>
   (fst (plankaRequest
          \<lparr>path = ''/api/projects/'' @ id' u, method' = Some ''PATCH'',
           body = Some (JObject (case UpdateProjectOptions.name u of
                                   None \<Rightarrow> [] | Some n \<Rightarrow> [(''name'', JString n)]))\<rparr> w) =
      Inr response \<and>
    ProjectResponseSchema P response = Inl issues \<longrightarrow>
    fst (updateProject plankaRequest P fmt u w) =
      Inl (Error (''Failed to update project: '' @ fmt issues))) \<and>
   (case fst (getProjects plankaRequest P fmt printed page_arg perPage_arg w) of
      Inl x \<Rightarrow> \<exists>m. x = Error (''Failed to get projects: '' @ m) | Inr v \<Rightarrow> True) \<and>
   (case fst (getProject plankaRequest P fmt i w) of
      Inl x \<Rightarrow> \<exists>m. x = Error (''Failed to get project: '' @ m) | Inr v \<Rightarrow> True) \<and>
   (case fst (createProject plankaRequest P fmt c w) of
      Inl x \<Rightarrow> \<exists>m. x = Error (''Failed to create project: '' @ m) | Inr v \<Rightarrow> True) \<and>
   (case fst (updateProject plankaRequest P fmt u w) of
      Inl x \<Rightarrow> \<exists>m. x = Error (''Failed to update project: '' @ m) | Inr v \<Rightarrow> True) \<and>
   (case fst (deleteProject plankaRequest i w) of
      Inl x \<Rightarrow> \<exists>m. x = Error (''Failed to delete project: '' @ m) | Inr v \<Rightarrow> True)"
  by (intro conjI impI; (elim conjE)?)
    (simp_all add: getProjects_fst getProject_fst createProject_fst updateProject_fst
      deleteProject_fst raised invalid invalid_list try_catch_shape)

text \<open>
  A request function that throws \<open>Error("Not Found")\<close>, one that throws a value that is
  no \<open>Error\<close>, and one that answers with the empty object.
\<close>

theorem failures_are_wrapped_witness:
  "fst (getProjects (logged (\<lambda>r. Inl (Error ''Not Found''))) PlankaProjectSchema_spec
         (\<lambda>issues. concat (map message issues)) (\<lambda>r. ''1e+21'') None None []) =
     Inl (Error ''Failed to get projects: Not Found'') \<and>
   fst (getProject (logged (\<lambda>r. Inl (Error ''Not Found''))) PlankaProjectSchema_spec
         (\<lambda>issues. concat (map message issues)) ''42'' []) =
     Inl (Error ''Failed to get project: Not Found'') \<and>
   fst (createProject (logged (\<lambda>r. Inl (Error ''Not Found''))) PlankaProjectSchema_spec
         (\<lambda>issues. concat (map message issues)) \<lparr>CreateProjectOptions.name = ''New''\<rparr> []) =
     Inl (Error ''Failed to create project: Not Found'') \<and>
   fst (updateProject (logged (\<lambda>r. Inl (Error ''Not Found''))) PlankaProjectSchema_spec
         (\<lambda>issues. concat (map message issues)) \<lparr>id' = ''5'', name = Some ''X''\<rparr> []) =
     Inl (Error ''Failed to update project: Not Found'') \<and>
   fst (deleteProject (logged (\<lambda>r. Inl (Error ''Not Found''))) ''42'' []) =
     Inl (Error ''Failed to delete project: Not Found'') \<and>
   fst (deleteProject (logged (\<lambda>r. Inl (NonError ''timeout''))) ''42'' []) =
     Inl (Error ''Failed to delete project: timeout'') \<and>
   ProjectsResponseSchema PlankaProjectSchema_spec (JObject []) =
     Inl [ZodIssue ''invalid_type'' [Key ''items''] ''Required''] \<and>
   fst (getProjects (logged (\<lambda>r. Inr (JObject []))) PlankaProjectSchema_spec
         (\<lambda>issues. concat (map message issues)) (\<lambda>r. ''1e+21'') None None []) =
     Inl (Error ''Failed to get projects: Required'') \<and>
   ProjectResponseSchema PlankaProjectSchema_spec (JObject []) =
     Inl [ZodIssue ''invalid_type'' [Key ''item''] ''Required''] \<and>
   fst (getProject (logged (\<lambda>r. Inr (JObject []))) PlankaProjectSchema_spec
         (\<lambda>issues. concat (map message issues)) ''42'' []) =
     Inl (Error ''Failed to get project: Required'') \<and>
   fst (createProject (logged (\<lambda>r. Inr (JObject []))) PlankaProjectSchema_spec
         (\<lambda>issues. concat (map message issues)) \<lparr>CreateProjectOptions.name = ''New''\<rparr> []) =
     Inl (Error ''Failed to create project: Required'') \<and>
   fst (updateProject (logged (\<lambda>r. Inr (JObject []))) PlankaProjectSchema_spec
         (\<lambda>issues. concat (map message issues)) \<lparr>id' = ''5'', name = Some ''X''\<rparr> []) =
     Inl (Error ''Failed to update project: Required'')"
proof -
  have list_issues:
    "ProjectsResponseSchema PlankaProjectSchema_spec (JObject []) =
       Inl [ZodIssue ''invalid_type'' [Key ''items''] ''Required'']"
    by (simp add: ProjectsResponseSchema_def z_object_def z_object_with_def mergeObjectSync_def property_def
        z_array_def z_optional_def invalid_type_def inside_def)
  have single_issues:
    "ProjectResponseSchema PlankaProjectSchema_spec (JObject []) =
       Inl [ZodIssue ''invalid_type'' [Key ''item''] ''Required'']"
    by (simp add: ProjectResponseSchema_def PlankaProjectSchema_spec_def z_object_def
        z_object_with_def mergeObjectSync_def property_def z_optional_def invalid_type_def inside_def)
  note raising =
    failures_are_wrapped
      [where plankaRequest = "logged (\<lambda>r. Inl (Error ''Not Found''))"
         and e = "Error ''Not Found''" and w = "[]" and P = PlankaProjectSchema_spec
         and fmt = "\<lambda>issues. concat (map message issues)"
         and printed = "\<lambda>r. ''1e+21''" and page_arg = None and perPage_arg = None and i = "''42''"
         and c = "\<lparr>CreateProjectOptions.name = ''New''\<rparr>"
         and u = "\<lparr>id' = ''5'', name = Some ''X''\<rparr>"]
  note other =
    failures_are_wrapped
      [where plankaRequest = "logged (\<lambda>r. Inl (NonError ''timeout''))"
         and e = "NonError ''timeout''" and w = "[]" and i = "''42''"]
  note on_list =
    failures_are_wrapped
      [where plankaRequest = "logged (\<lambda>r. Inr (JObject []))"
         and response = "JObject []" and w = "[]" and P = PlankaProjectSchema_spec
         and issues = "[ZodIssue ''invalid_type'' [Key ''items''] ''Required'']"
         and fmt = "\<lambda>issues. concat (map message issues)"
         and printed = "\<lambda>r. ''1e+21''" and page_arg = None and perPage_arg = None]
  note on_single =
    failures_are_wrapped
      [where plankaRequest = "logged (\<lambda>r. Inr (JObject []))"
         and response = "JObject []" and w = "[]" and P = PlankaProjectSchema_spec
         and issues = "[ZodIssue ''invalid_type'' [Key ''item''] ''Required'']"
         and fmt = "\<lambda>issues. concat (map message issues)"
         and i = "''42''"
         and c = "\<lparr>CreateProjectOptions.name = ''New''\<rparr>"
         and u = "\<lparr>id' = ''5'', name = Some ''X''\<rparr>"]
  show ?thesis
    using raising other on_list on_single list_issues single_issues
    by (simp add: logged_def error_text_def)
qed

subsection \<open>Arguments that are not checked\<close>

lemma accepts_name: "accepts CreateProjectSchema (JObject [(''name'', JString n)])"
  by (simp add: accepts_def CreateProjectSchema_def z_object_def z_object_with_def mergeObjectSync_def
      property_def z_string_def inside_def)

lemma accepts_id: "accepts GetProjectSchema (JObject [(''id'', JString i)])"
  by (simp add: accepts_def GetProjectSchema_def z_object_def z_object_with_def mergeObjectSync_def
      property_def z_string_def inside_def)

lemma spec_project:
  "PlankaProjectSchema_spec (JObject [(''id'', JString a), (''name'', JString b)]) =
   Inr (JObject [(''id'', JString a), (''name'', JString b)])"
  by (simp add: PlankaProjectSchema_spec_def z_object_with_def mergeObjectSync_def property_def z_string_def
      inside_def)

lemma single_response:
  "ProjectResponseSchema PlankaProjectSchema_spec
     (JObject [(''item'', JObject [(''id'', JString a), (''name'', JString b)])]) =
   Inr (JObject [(''item'', JObject [(''id'', JString a), (''name'', JString b)])])"
  by (simp add: ProjectResponseSchema_def z_object_def z_object_with_def mergeObjectSync_def property_def
      has_key_def spec_project z_optional_def inside_def)

text \<open>
  C7, as stated: \<open>createProject\<close> rejects an empty \<open>name\<close>. It does not. With the empty
  name, and a remote service that answers with a project, the operation sends the POST
  with body \<open>{name: ""}\<close> and returns the project; \<open>CreateProjectSchema\<close> accepts the
  empty name as well.
\<close>

theorem createProject_empty_name_counterexample:
  "accepts CreateProjectSchema (JObject [(''name'', JString '''')]) \<and>
   createProject
     (logged (\<lambda>r. Inr (JObject [(''item'', JObject [(''id'', JString ''9''), (''name'', JString '''')])])))
     PlankaProjectSchema_spec (\<lambda>issues. concat (map message issues))
     \<lparr>CreateProjectOptions.name = ''''\<rparr> [] =
   (Inr (JObject [(''id'', JString ''9''), (''name'', JString '''')]),
    [\<lparr>path = ''/api/projects'', method' = Some ''POST'',
      body = Some (JObject [(''name'', JString '''')])\<rparr>])"
  by (simp add: accepts_name createProject_def logged_def try_catch_def and_then_def parse_def
      single_response member_of_def property_def)

text \<open>
  C7, amended. \<open>createProject\<close> does not check \<open>name\<close>, and \<open>CreateProjectSchema\<close> asks for
  a string and nothing more: for every name, the empty one included, the operation
  sends a POST to \<open>/api/projects\<close> with body \<open>{name: <name>}\<close>, and when the request
  returns a conforming response the result is the validated item.
\<close>

theorem createProject_any_name:
  "accepts CreateProjectSchema (JObject [(''name'', JString n)]) \<and>
   snd (createProject (logged remote) P fmt \<lparr>CreateProjectOptions.name = n\<rparr> sent) =
     sent @ [\<lparr>path = ''/api/projects'', method' = Some ''POST'',
              body = Some (JObject [(''name'', JString n)])\<rparr>] \<and>
   (remote \<lparr>path = ''/api/projects'', method' = Some ''POST'',
            body = Some (JObject [(''name'', JString n)])\<rparr> = Inr response \<and>
    conforms_ProjectResponse P response \<longrightarrow>
    (\<exists>kvs item. response = JObject kvs \<and> P (property kvs ''item'') = Inr item \<and>
       fst (createProject (logged remote) P fmt \<lparr>CreateProjectOptions.name = n\<rparr> sent) =
         Inr item))"
proof (intro conjI impI)
  show "accepts CreateProjectSchema (JObject [(''name'', JString n)])"
    by (rule accepts_name)
  show "snd (createProject (logged remote) P fmt \<lparr>CreateProjectOptions.name = n\<rparr> sent) =
     sent @ [\<lparr>path = ''/api/projects'', method' = Some ''POST'',
              body = Some (JObject [(''name'', JString n)])\<rparr>]"
    by (simp add: createProject_def logged_def)
  assume "remote \<lparr>path = ''/api/projects'', method' = Some ''POST'',
            body = Some (JObject [(''name'', JString n)])\<rparr> = Inr response \<and>
    conforms_ProjectResponse P response"
  then show "\<exists>kvs item. response = JObject kvs \<and> P (property kvs ''item'') = Inr item \<and>
       fst (createProject (logged remote) P fmt \<lparr>CreateProjectOptions.name = n\<rparr> sent) =
         Inr item"
    using valid_item [of P response "''Failed to create project: ''" fmt]
    by (simp add: createProject_fst logged_def)
qed

theorem createProject_any_name_witness:
  "conforms_ProjectResponse PlankaProjectSchema_spec
     (JObject [(''item'', JObject [(''id'', JString ''9''), (''name'', JString '''')])]) \<and>
   snd (createProject
         (logged (\<lambda>r. Inr (JObject [(''item'', JObject [(''id'', JString ''9''), (''name'', JString '''')])])))
         PlankaProjectSchema_spec (\<lambda>issues. concat (map message issues))
         \<lparr>CreateProjectOptions.name = ''''\<rparr> []) =
     [\<lparr>path = ''/api/projects'', method' = Some ''POST'',
       body = Some (JObject [(''name'', JString '''')])\<rparr>] \<and>
   (\<exists>item.
      PlankaProjectSchema_spec (JObject [(''id'', JString ''9''), (''name'', JString '''')]) =
        Inr item \<and>
      fst (createProject
           (logged (\<lambda>r. Inr (JObject [(''item'', JObject [(''id'', JString ''9''), (''name'', JString '''')])])))
           PlankaProjectSchema_spec (\<lambda>issues. concat (map message issues))
           \<lparr>CreateProjectOptions.name = ''''\<rparr> []) = Inr item)"
proof -
  let ?response = "JObject [(''item'', JObject [(''id'', JString ''9''), (''name'', JString '''')])]"
  have h: "conforms_ProjectResponse PlankaProjectSchema_spec ?response"
    by (simp add: conforms_ProjectResponse_def property_def accepts_def spec_project
        optional_map_def)
  show ?thesis
    using h
      createProject_any_name
        [where remote = "\<lambda>r. Inr ?response" and response = ?response
           and P = PlankaProjectSchema_spec and n = "''''" and sent = "[]"
           and fmt = "\<lambda>issues. concat (map message issues)"]
    by (auto simp: property_def)
qed

text \<open>
  C8, as stated: \<open>getProject\<close> makes no request for an empty \<open>id\<close>. It does. With the
  empty id the request goes to \<open>/api/projects/\<close>, and the operation returns what the
  remote service answers; \<open>GetProjectSchema\<close> accepts the empty id as well.
\<close>

theorem getProject_empty_id_counterexample:
  "accepts GetProjectSchema (JObject [(''id'', JString '''')]) \<and>
   getProject
     (logged (\<lambda>r. Inr (JObject [(''item'', JObject [(''id'', JString ''1''), (''name'', JString ''Demo'')])])))
     PlankaProjectSchema_spec (\<lambda>issues. concat (map message issues)) '''' [] =
   (Inr (JObject [(''id'', JString ''1''), (''name'', JString ''Demo'')]),
    [\<lparr>path = ''/api/projects/'', method' = None, body = None\<rparr>])"
  by (simp add: accepts_id getProject_def logged_def try_catch_def and_then_def parse_def
      single_response member_of_def property_def)

text \<open>
  C8, amended. \<open>getProject\<close> does not check \<open>id\<close>, and \<open>GetProjectSchema\<close> asks for a
  string and nothing more: for every id, the empty one included, the operation makes
  its request, to the path \<open>/api/projects/\<close> followed by the id.
\<close>

theorem getProject_any_id:
  "accepts GetProjectSchema (JObject [(''id'', JString i)]) \<and>
   snd (getProject (logged remote) P fmt i sent) =
     sent @ [\<lparr>path = ''/api/projects/'' @ i, method' = None, body = None\<rparr>]"
  by (simp add: accepts_id getProject_def logged_def)

subsection \<open>Methods and paths\<close>

text \<open>
  C9. Each operation makes exactly one request: \<open>getProjects\<close> a GET of
  \<open>/api/projects?page=<n>&per_page=<m>\<close>, \<open>page\<close> before \<open>per_page\<close>; \<open>getProject\<close> a
  request of \<open>/api/projects/<id>\<close> that names no method, which the request function
  takes as a GET; \<open>createProject\<close> a POST of \<open>/api/projects\<close>; \<open>updateProject\<close> a PATCH of
  \<open>/api/projects/<id>\<close>; \<open>deleteProject\<close> a DELETE of \<open>/api/projects/<id>\<close>.
\<close>

theorem requests_of_the_operations:
  "snd (getProjects (logged remote) P fmt printed page_arg perPage_arg sent) =
     sent @
     [\<lparr>path = ''/api/projects?page='' @
               urlencode (number_toString printed
                 (case page_arg of None \<Rightarrow> Finite 1 | Some n \<Rightarrow> n)) @
             ''&per_page='' @
               urlencode (number_toString printed
                 (case perPage_arg of None \<Rightarrow> Finite 30
                  | Some n \<Rightarrow> if number_gt n (Finite 100) then Finite 100 else n)),
       method' = Some ''GET'', body = None\<rparr>] \<and>
   snd (getProject (logged remote) P fmt i sent) =
     sent @ [\<lparr>path = ''/api/projects/'' @ i, method' = None, body = None\<rparr>] \<and>
   effective_method \<lparr>path = ''/api/projects/'' @ i, method' = None, body = None\<rparr> = ''GET'' \<and>
   snd (createProject (logged remote) P fmt c sent) =
     sent @
     [\<lparr>path = ''/api/projects'', method' = Some ''POST'',
       body = Some (JObject [(''name'', JString (CreateProjectOptions.name c))])\<rparr>] \<and>
   snd (updateProject (logged remote) P fmt u sent) =
     sent @
     [\<lparr>path = ''/api/projects/'' @ id' u, method' = Some ''PATCH'',
       body = Some (JObject (case UpdateProjectOptions.name u of
                               None \<Rightarrow> [] | Some n \<Rightarrow> [(''name'', JString n)]))\<rparr>] \<and>
   snd (deleteProject (logged remote) i sent) =
     sent @ [\<lparr>path = ''/api/projects/'' @ i, method' = Some ''DELETE'', body = None\<rparr>]"
  by (simp add: getProjects_sent getProject_def createProject_def updateProject_def
      deleteProject_def logged_def effective_method_def Let_def split: option.split)

text \<open>
  The five requests for page 2 of size 50, the projects 42, 5 and 7 and the new project
  \<open>New\<close>.
\<close>

theorem requests_of_the_operations_witness:
  "snd (getProjects (logged (\<lambda>r. Inl (Error ''Not Found''))) PlankaProjectSchema_spec
          (\<lambda>issues. concat (map message issues)) (\<lambda>r. ''1e+21'')
          (Some (Finite 2)) (Some (Finite 50)) []) =
     [\<lparr>path = ''/api/projects?page=2&per_page=50'', method' = Some ''GET'', body = None\<rparr>] \<and>
   snd (getProject (logged (\<lambda>r. Inl (Error ''Not Found''))) PlankaProjectSchema_spec
          (\<lambda>issues. concat (map message issues)) ''42'' []) =
     [\<lparr>path = ''/api/projects/42'', method' = None, body = None\<rparr>] \<and>
   effective_method \<lparr>path = ''/api/projects/42'', method' = None, body = None\<rparr> = ''GET'' \<and>
   snd (createProject (logged (\<lambda>r. Inl (Error ''Not Found''))) PlankaProjectSchema_spec
          (\<lambda>issues. concat (map message issues)) \<lparr>CreateProjectOptions.name = ''New''\<rparr> []) =
     [\<lparr>path = ''/api/projects'', method' = Some ''POST'',
       body = Some (JObject [(''name'', JString ''New'')])\<rparr>] \<and>
   snd (updateProject (logged (\<lambda>r. Inl (Error ''Not Found''))) PlankaProjectSchema_spec
          (\<lambda>issues. concat (map message issues)) \<lparr>id' = ''5'', name = Some ''X''\<rparr> []) =
     [\<lparr>path = ''/api/projects/5'', method' = Some ''PATCH'',
       body = Some (JObject [(''name'', JString ''X'')])\<rparr>] \<and>
   snd (deleteProject (logged (\<lambda>r. Inl (Error ''Not Found''))) ''7'' []) =
     [\<lparr>path = ''/api/projects/7'', method' = Some ''DELETE'', body = None\<rparr>]"
proof -
  let ?printed = "\<lambda>r :: rat. ''1e+21''"
  have d: "decimal 2 = ''2''" "decimal 50 = ''50''"
    by (simp_all add: decimal_def digits.simps)
  have t: "number_toString ?printed (Finite 2) = ''2''"
    "number_toString ?printed (Finite 50) = ''50''"
    using number_toString_of_int [of 2 ?printed] number_toString_of_int [of 50 ?printed]
    by (simp_all add: d)
  have e: "urlencode ''2'' = ''2''" "urlencode ''50'' = ''50''"
    by (simp_all add: urlencode_def urlencode_byte_def unreserved_def)
  show ?thesis
    using requests_of_the_operations
      [where remote = "\<lambda>r. Inl (Error ''Not Found'')" and P = PlankaProjectSchema_spec
         and fmt = "\<lambda>issues. concat (map message issues)" and printed = ?printed
         and page_arg = "Some (Finite 2)" and perPage_arg = "Some (Finite 50)"
         and sent = "[]" and i = "''42''"
         and c = "\<lparr>CreateProjectOptions.name = ''New''\<rparr>"
         and u = "\<lparr>id' = ''5'', name = Some ''X''\<rparr>"]
      requests_of_the_operations
      [where remote = "\<lambda>r. Inl (Error ''Not Found'')" and sent = "[]" and i = "''7''"]
    by (simp add: t e)
qed

subsection \<open>No lower bound on the page and the page size\<close>



end
